theory Spec2Isabelle
  imports Complex_Main "HOL-Library.Log_Nat"
begin

section \<open>Characters and strings\<close>

text \<open>
  The pipeline of \<^verbatim>\<open>Globant_final.py\<close> works on text columns with Java regular
  expressions (\<^verbatim>\<open>regexp_replace\<close>, \<^verbatim>\<open>regexp_extract\<close>, \<^verbatim>\<open>rlike\<close>) and with
  \<^verbatim>\<open>trim\<close> and \<^verbatim>\<open>lower\<close>. Text is modelled as ASCII held in HOL strings. The
  character classes below are the ones the patterns of the source name, read the way
  Java reads them without the Unicode flags: \<^verbatim>\<open>\d\<close> is \<^verbatim>\<open>[0-9]\<close>, \<^verbatim>\<open>\s\<close> is
  space, tab, line feed, vertical tab, form feed and carriage return, and a word
  character (for \<^verbatim>\<open>\b\<close>) is a letter, a digit or the underscore.
\<close>

definition chr_between :: "char \<Rightarrow> char \<Rightarrow> char \<Rightarrow> bool" where
  "chr_between lo hi c = ((of_char lo :: nat) \<le> of_char c \<and> (of_char c :: nat) \<le> of_char hi)"

definition is_digit :: "char \<Rightarrow> bool" where
  "is_digit c = chr_between (CHR ''0'') (CHR ''9'') c"

definition is_upper :: "char \<Rightarrow> bool" where
  "is_upper c = chr_between (CHR ''A'') (CHR ''Z'') c"

definition is_lower :: "char \<Rightarrow> bool" where
  "is_lower c = chr_between (CHR ''a'') (CHR ''z'') c"

definition is_alpha :: "char \<Rightarrow> bool" where
  "is_alpha c = (is_lower c \<or> is_upper c)"

definition is_alnum :: "char \<Rightarrow> bool" where
  "is_alnum c = (is_alpha c \<or> is_digit c)"

definition is_word :: "char \<Rightarrow> bool" where
  "is_word c = (is_alnum c \<or> c = CHR ''_'')"

definition is_space :: "char \<Rightarrow> bool" where
  "is_space c = (c = CHR '' '' \<or> chr_between (CHR 0x09) (CHR 0x0D) c)"

definition is_line_terminator :: "char \<Rightarrow> bool" where
  "is_line_terminator c = (c = CHR 0x0A \<or> c = CHR 0x0D)"

text \<open>
  \<^verbatim>\<open>lower\<close>: an upper-case letter moves 32 code points up, which sets bit 5 of its
  code; every other character stays.
\<close>

definition to_lower :: "char \<Rightarrow> char" where
  "to_lower c =
     (if is_upper c
      then (case c of Char b0 b1 b2 b3 b4 b5 b6 b7 \<Rightarrow> Char b0 b1 b2 b3 b4 True b6 b7)
      else c)"

definition lower :: "string \<Rightarrow> string" where
  "lower s = map to_lower s"

text \<open>Spark's \<^verbatim>\<open>trim\<close> removes the space character from both ends.\<close>

definition trim :: "string \<Rightarrow> string" where
  "trim s = rev (dropWhile (\<lambda>c. c = CHR '' '') (rev (dropWhile (\<lambda>c. c = CHR '' '') s)))"


section \<open>Size Normalizer: cleaning a size token\<close>

text \<open>
  Lines 90 to 92 of the source rewrite the \<^verbatim>\<open>size\<close> column three times:
  \<^verbatim>\<open>trim(regexp_replace(size, '\s+', ''))\<close>, then
  \<^verbatim>\<open>regexp_replace(size, '\(.*?\)', '')\<close>, then
  \<^verbatim>\<open>regexp_replace(size, '[^a-zA-Z0-9]', '')\<close>.
  Replacing every match of a one-character class (or of a run of it) by the empty
  string keeps exactly the characters outside the class.
\<close>

definition remove_whitespace :: "string \<Rightarrow> string" where
  "remove_whitespace s = filter (\<lambda>c. \<not> is_space c) s"

text \<open>
  \<^verbatim>\<open>\(.*?\)\<close>: after an opening parenthesis the reluctant \<^verbatim>\<open>.*?\<close> stops at the
  first closing parenthesis; the dot does not cross a line terminator, so the match
  fails at this opening parenthesis when one comes first. \<open>find_close\<close> returns the
  text after the closing parenthesis of a match.
\<close>

fun find_close :: "string \<Rightarrow> string option" where
  "find_close [] = None"
| "find_close (c # cs) =
     (if c = CHR '')'' then Some cs
      else if is_line_terminator c then None
      else find_close cs)"

text \<open>
  The replacement scans from the left: at an opening parenthesis that starts a match
  the whole match is dropped and the scan goes on behind it; any other character is
  kept.
\<close>

function strip_parens :: "string \<Rightarrow> string" where
  "strip_parens [] = []"
| "strip_parens (c # cs) =
     (if c = CHR ''(''
      then (case find_close cs of
              Some rest \<Rightarrow> strip_parens rest
            | None \<Rightarrow> c # strip_parens cs)
      else c # strip_parens cs)"
  by pat_completeness auto
termination
proof (relation "measure length")
  show "wf (measure length)" by simp
next
  fix c :: char and cs rest :: string
  assume "c = CHR ''(''" and found: "find_close cs = Some rest"
  have "find_close cs = Some rest \<Longrightarrow> length rest < Suc (length cs)"
    by (induction cs) (auto split: if_splits)
  with found show "(rest, c # cs) \<in> measure length" by simp
next
  fix c :: char and cs :: string
  show "(cs, c # cs) \<in> measure length" by simp
next
  fix c :: char and cs :: string
  show "(cs, c # cs) \<in> measure length" by simp
qed

definition strip_non_alnum :: "string \<Rightarrow> string" where
  "strip_non_alnum s = filter is_alnum s"

definition clean_size :: "string \<Rightarrow> string" where
  "clean_size s = strip_non_alnum (strip_parens (trim (remove_whitespace s)))"


section \<open>Spark column values\<close>

text \<open>
  A column value may be NULL: it is an \<open>option\<close>. A comparison or a Boolean
  connective on NULL follows SQL's three-valued logic, and \<^verbatim>\<open>when\<close> takes a
  branch only on a condition that is true.
\<close>

fun and3 :: "bool option \<Rightarrow> bool option \<Rightarrow> bool option" where
  "and3 (Some False) _ = Some False"
| "and3 _ (Some False) = Some False"
| "and3 (Some True) (Some True) = Some True"
| "and3 _ _ = None"

definition not3 :: "bool option \<Rightarrow> bool option" where
  "not3 b = map_option Not b"

definition eq3 :: "'a option \<Rightarrow> 'a \<Rightarrow> bool option" where
  "eq3 v x = map_option (\<lambda>y. y = x) v"

definition lt3 :: "rat option \<Rightarrow> rat \<Rightarrow> bool option" where
  "lt3 v x = map_option (\<lambda>y. y < x) v"

definition ge3 :: "rat option \<Rightarrow> rat \<Rightarrow> bool option" where
  "ge3 v x = map_option (\<lambda>y. x \<le> y) v"

definition between :: "int option \<Rightarrow> int \<Rightarrow> int \<Rightarrow> bool option" where
  "between v lo hi = map_option (\<lambda>n. lo \<le> n \<and> n \<le> hi) v"

text \<open>\<^verbatim>\<open>when(c, v)\<close> alone (\<open>when_col\<close>) is NULL unless \<open>c\<close> is true.\<close>

definition when_col :: "bool option \<Rightarrow> 'a \<Rightarrow> 'a option" where
  "when_col c v = (if c = Some True then Some v else None)"

text \<open>\<^verbatim>\<open>coalesce(x1, ..., xn, lit(d))\<close>: the first value that is not NULL.\<close>

fun coalesce_lit :: "'a option list \<Rightarrow> 'a \<Rightarrow> 'a" where
  "coalesce_lit [] d = d"
| "coalesce_lit (Some v # xs) d = v"
| "coalesce_lit (None # xs) d = coalesce_lit xs d"

text \<open>\<^verbatim>\<open>when(c1, v1).when(c2, v2) ... .otherwise(d)\<close>: the first branch whose condition is true.\<close>

fun case_when :: "(bool option \<times> 'a) list \<Rightarrow> 'a \<Rightarrow> 'a" where
  "case_when [] d = d"
| "case_when ((c, v) # bs) d = (if c = Some True then v else case_when bs d)"

text \<open>
  Two expressions of the source can fail: the cast of a text to \<^verbatim>\<open>IntegerType\<close>
  and the division. What they do on a bad input is the session's setting
  \<^verbatim>\<open>spark.sql.ansi.enabled\<close>, which the source leaves at the session's default
  (\<^verbatim>\<open>SparkSession.builder.appName("transformacion").getOrCreate()\<close>): with the
  setting off the value is NULL, with it on the job stops with an error. The setting
  is the parameter \<open>ansi\<close> of the functions below.
\<close>

datatype error = CastInvalidInput | DivideByZero

definition digit_value :: "char \<Rightarrow> nat" where
  "digit_value c = of_char c - 48"

definition digits_value :: "string \<Rightarrow> nat" where
  "digits_value s = foldl (\<lambda>n c. 10 * n + digit_value c) 0 s"

text \<open>
  The cast is applied to what \<^verbatim>\<open>(\d+)\<close> captured, a run of digits or the empty
  text: a run whose number fits a signed 32-bit integer is that number, anything else
  is an invalid input.
\<close>

definition cast_int :: "bool \<Rightarrow> string \<Rightarrow> error + int option" where
  "cast_int ansi s =
     (if s \<noteq> [] \<and> list_all is_digit s \<and> digits_value s \<le> 2147483647
      then Inr (Some (int (digits_value s)))
      else if ansi then Inl CastInvalidInput else Inr None)"

text \<open>The division of two integer columns is a fractional division.\<close>

definition spark_divide :: "bool \<Rightarrow> int \<Rightarrow> int \<Rightarrow> error + rat option" where
  "spark_divide ansi a b =
     (if b = 0 then (if ansi then Inl DivideByZero else Inr None)
      else Inr (Some (of_int a / of_int b)))"

text \<open>An expression that fails on one row fails the job.\<close>

fun collect :: "(error + 'a) list \<Rightarrow> error + 'a list" where
  "collect [] = Inr []"
| "collect (x # xs) =
     (case x of
        Inl e \<Rightarrow> Inl e
      | Inr v \<Rightarrow> (case collect xs of Inl e \<Rightarrow> Inl e | Inr vs \<Rightarrow> Inr (v # vs)))"


subsection \<open>Binary floating point\<close>

text \<open>
  \<^verbatim>\<open>availability_percentage\<close> is cast to \<^verbatim>\<open>FloatType\<close> and then compared with
  the literals \<^verbatim>\<open>0.3\<close> and \<^verbatim>\<open>0.5\<close>, which are doubles. A finite binary
  floating-point number is a rational, and the conversion of a rational to a format
  with \<open>p\<close> significant bits and least exponent \<open>emin\<close> is rounding to the nearest
  multiple of the unit in the last place, ties to the even multiple. Infinities are
  not represented: no quotient of two integer columns reaches them.
\<close>

definition round_half_even :: "rat \<Rightarrow> int" where
  "round_half_even x =
     (let f = \<lfloor>x\<rfloor>; d = x - of_int f
      in if d < 1 / 2 then f else if 1 / 2 < d then f + 1 else if even f then f else f + 1)"

text \<open>The exponent \<open>e\<close> of \<open>x \<noteq> 0\<close>: \<open>2 powi e \<le> \<bar>x\<bar> < 2 powi (e + 1)\<close>.\<close>

definition binary_exponent :: "rat \<Rightarrow> int" where
  "binary_exponent x =
     (let k = bitlen (fst (quotient_of \<bar>x\<bar>)) - bitlen (snd (quotient_of \<bar>x\<bar>))
      in if 2 powi k \<le> \<bar>x\<bar> then k else k - 1)"

definition round_binary :: "nat \<Rightarrow> int \<Rightarrow> rat \<Rightarrow> rat" where
  "round_binary p emin x =
     (if x = 0 then 0
      else (let e = max (binary_exponent x) emin; q = 2 powi (e - int p + 1)
            in of_int (round_half_even (x / q)) * q))"

definition to_double :: "rat \<Rightarrow> rat" where
  "to_double x = round_binary 53 (- 1022) x"

definition to_float32 :: "rat \<Rightarrow> rat" where
  "to_float32 x = round_binary 24 (- 126) x"

text \<open>
  \<^verbatim>\<open>round(x, n)\<close> rounds half-up (ties away from zero) at \<open>n\<close> decimals.
\<close>

definition round_half_up :: "nat \<Rightarrow> rat \<Rightarrow> rat" where
  "round_half_up n x = sgn x * of_int \<lfloor>\<bar>x\<bar> * 10 ^ n + 1 / 2\<rfloor> / 10 ^ n"


section \<open>The rows of the data frame\<close>

text \<open>
  One record type holds the columns that the stages read and write; a
  \<^verbatim>\<open>withColumn\<close> is a record update. \<open>size_col\<close> is the column \<^verbatim>\<open>size\<close>.
  The two size columns are the arrays that \<^verbatim>\<open>ensure_array_columns\<close> has made.
\<close>

record row =
  product_name :: "string option"
  brand_name :: string
  sub_brand_name :: string
  retailer :: string
  total_sizes :: "string list"
  available_size :: "string list"
  size_col :: string
  size_number :: "int option"
  size_letter :: string
  is_available :: int
  size_group :: string
  total_offered_items :: int
  available_items :: int
  availability_percentage :: "rat option"
  status :: string
  Warning_Sanction :: string
  category :: "string option"
  product_id :: int
  retailer_id :: int
  size_id :: int


section \<open>Size Normalizer and Size Classifier\<close>

text \<open>
  \<^verbatim>\<open>regexp_extract(size, "(\d+)", 1)\<close>: the leftmost match of \<^verbatim>\<open>\d+\<close>, which is
  the first maximal run of digits wherever it starts, or the empty text.
\<close>

definition first_digit_run :: "string \<Rightarrow> string" where
  "first_digit_run s = takeWhile is_digit (dropWhile (\<lambda>c. \<not> is_digit c) s)"

text \<open>
  \<^verbatim>\<open>$\<close> holds at the end of the text and before a line terminator that ends it.
\<close>

definition at_end :: "string \<Rightarrow> bool" where
  "at_end r = (r = [] \<or> r = [CHR 0x0A] \<or> r = [CHR 0x0D] \<or> r = [CHR 0x0D, CHR 0x0A])"

text \<open>
  \<^verbatim>\<open>regexp_extract(size, "([a-zA-Z]+)$", 1)\<close>: the leftmost position from which a
  run of letters reaches \<^verbatim>\<open>$\<close>; the empty text when there is none.
\<close>

fun letters_at_end :: "string \<Rightarrow> string" where
  "letters_at_end [] = []"
| "letters_at_end (c # cs) =
     (if is_alpha c \<and> at_end (dropWhile is_alpha cs) then c # takeWhile is_alpha cs
      else letters_at_end cs)"

text \<open>
  \<^verbatim>\<open>rlike("(?i)^[...]+$")\<close>: a run of the class from the start up to \<^verbatim>\<open>$\<close>.
  Under \<^verbatim>\<open>(?i)\<close> a character belongs to a class when it or its other case does.
\<close>

definition to_upper :: "char \<Rightarrow> char" where
  "to_upper c =
     (if is_lower c
      then (case c of Char b0 b1 b2 b3 b4 b5 b6 b7 \<Rightarrow> Char b0 b1 b2 b3 b4 False b6 b7)
      else c)"

definition class_ci :: "(char \<Rightarrow> bool) \<Rightarrow> char \<Rightarrow> bool" where
  "class_ci cls c = (cls c \<or> cls (to_lower c) \<or> cls (to_upper c))"

definition rlike_class_plus :: "(char \<Rightarrow> bool) \<Rightarrow> string \<Rightarrow> bool" where
  "rlike_class_plus cls s = (takeWhile cls s \<noteq> [] \<and> at_end (dropWhile cls s))"

definition size_conditions :: "int option \<Rightarrow> string \<Rightarrow> (bool option \<times> string) list" where
  "size_conditions n s =
     [(between n 30 32, ''Small''),
      (between n 34 36, ''Medium''),
      (between n 38 40, ''Large''),
      (between n 42 46, ''Extra Large''),
      (Some (rlike_class_plus (class_ci (\<lambda>c. c \<in> set ''SMLXLXXL'')) s), ''Not Bras''),
      (Some (rlike_class_plus (class_ci (\<lambda>c. c \<in> set ''6789'')) s), ''Not Bras''),
      (Some (rlike_class_plus (class_ci (chr_between (CHR ''A'') (CHR ''Z''))) s), ''Not Bras'')]"

definition size_group_of :: "int option \<Rightarrow> string \<Rightarrow> string" where
  "size_group_of n s = coalesce_lit (map (\<lambda>(cond, grp). when_col cond grp) (size_conditions n s)) ''Unknown''"

definition array_contains :: "'a list \<Rightarrow> 'a \<Rightarrow> bool option" where
  "array_contains xs v = Some (v \<in> set xs)"

definition explode_sizes :: "row \<Rightarrow> row list" where
  "explode_sizes r = map (\<lambda>t. r\<lparr>size_col := t\<rparr>) (total_sizes r)"

definition normalize_size_row :: "bool \<Rightarrow> row \<Rightarrow> error + row" where
  "normalize_size_row ansi r0 =
     (let r1 = r0\<lparr>size_col := trim (remove_whitespace (size_col r0))\<rparr>;
          r2 = r1\<lparr>size_col := strip_parens (size_col r1)\<rparr>;
          r3 = r2\<lparr>size_col := strip_non_alnum (size_col r2)\<rparr>
      in case cast_int ansi (first_digit_run (size_col r3)) of
           Inl e \<Rightarrow> Inl e
         | Inr n \<Rightarrow>
            (let r4 = r3\<lparr>size_number := n\<rparr>;
                 r5 = r4\<lparr>size_letter := letters_at_end (size_col r4)\<rparr>;
                 r6 = r5\<lparr>is_available :=
                         case_when [(array_contains (available_size r5) (size_col r5), 1)] 0\<rparr>
             in Inr (r6\<lparr>size_group := size_group_of (size_number r6) (size_col r6)\<rparr>)))"

definition normalize_and_explode_sizes :: "bool \<Rightarrow> row list \<Rightarrow> error + row list" where
  "normalize_and_explode_sizes ansi df =
     collect (map (normalize_size_row ansi) (concat (map explode_sizes df)))"


section \<open>Metrics Calculator\<close>

text \<open>
  \<^verbatim>\<open>calculate_initial_metrics\<close>. The quotient of the two counts is a double and
  \<^verbatim>\<open>round\<close> rounds the decimal rendering of that double; the model rounds the
  exact quotient and keeps the two conversions that follow, the rounded decimal read
  as a double and its cast to \<^verbatim>\<open>FloatType\<close>. The literals \<^verbatim>\<open>0.3\<close> and
  \<^verbatim>\<open>0.5\<close> are the doubles nearest to three tenths and to one half.
\<close>

definition calculate_metrics_row :: "bool \<Rightarrow> row \<Rightarrow> error + row" where
  "calculate_metrics_row ansi r0 =
     (let r1 = r0\<lparr>total_offered_items := int (length (total_sizes r0))\<rparr>;
          r2 = r1\<lparr>available_items := int (length (available_size r1))\<rparr>
      in case spark_divide ansi (available_items r2) (total_offered_items r2) of
           Inl e \<Rightarrow> Inl e
         | Inr q \<Rightarrow>
            (let r3 = r2\<lparr>availability_percentage :=
                         map_option (\<lambda>x. to_float32 (to_double (round_half_up 2 x))) q\<rparr>;
                 r4 = r3\<lparr>status :=
                         case_when
                           [(lt3 (availability_percentage r3) (to_double (3 / 10)), ''Sanction''),
                            (lt3 (availability_percentage r3) (to_double (1 / 2)), ''Warning'')]
                           ''OK''\<rparr>
             in Inr (r4\<lparr>Warning_Sanction :=
                         case_when
                           [(and3 (and3 (Some (size_group r4 = ''Extra Large''))
                                        (lt3 (availability_percentage r4) (to_double (1 / 2))))
                                  (ge3 (availability_percentage r4) (to_double (3 / 10))),
                             ''Warning''),
                            (and3 (Some (size_group r4 = ''Extra Large''))
                                  (lt3 (availability_percentage r4) (to_double (3 / 10))),
                             ''Sanction'')]
                           ''''\<rparr>)))"

definition calculate_initial_metrics :: "bool \<Rightarrow> row list \<Rightarrow> error + row list" where
  "calculate_initial_metrics ansi df = collect (map (calculate_metrics_row ansi) df)"

section \<open>Brand Canonicalizer\<close>

text \<open>The dictionary \<^verbatim>\<open>brand_mapping\<close>, its keys in the order of the source.\<close>

definition brand_mapping :: "(string \<times> string \<times> string) list" where
  "brand_mapping =
     [(''victoria's secret'', (''Victoria's Secret'', '''')),
      (''victoria's secret pink'', (''Victoria's Secret'', ''Pink'')),
      (''us topshop'', (''Topshop'', ''Us Top Shop'')),
      (''calvin klein'', (''Calvin Klein'', '''')),
      (''hanky panky'', (''Hanky Panky'', '''')),
      (''b.tempt'd by wacoal'', (''Wacoal'', ''b.tempt'd'')),
      (''wacoal'', (''Wacoal'', '''')),
      (''vanity fair'', (''Vanity Fair'', '''')),
      (''calvin klein modern cotton'', (''Calvin Klein'', ''Modern Cotton'')),
      (''calvin klein performance'', (''Calvin Klein'', ''Performance'')),
      (''b.tempt'd'', (''Wacoal'', ''b.tempt'd'')),
      (''nordstrom lingerie'', (''Nordstrom'', '''')),
      (''hankypanky'', (''Hanky Panky'', '''')),
      (''calvin-klein'', (''Calvin Klein'', '''')),
      (''b-temptd'', (''Wacoal'', ''b-temptd'')),
      (''hanky-panky'', (''Hanky Panky'', '''')),
      (''victorias-secret'', (''Victoria's Secret'', '''')),
      (''s'', (''Wacoal'', '''')),
      (''ref=w_bl_sl_l_b_ap_web_2603426011?ie=utf8&node=2603426011&field-lbr_brands_browse-bin=wacoal'',
         (''Wacoal'', '''')),
      (''ref=w_bl_sl_l_ap_ap_web_2586685011?ie=utf8&node=2586685011&field-lbr_brands_browse-bin=calvin+klein'',
         (''Calvin Klein'', '''')),
      (''ref=w_bl_sl_l_b_ap_web_2586451011?ie=utf8&node=2586451011&field-lbr_brands_browse-bin=b.tempt%27d'',
         (''Wacoal'', ''b-temptd'')),
      (''lucky-brand'', (''Lucky Brand'', ''Lucky-Brand'')),
      (''aerie'', (''American Eagle'', ''Aerie'')),
      (''aeo'', (''American Eagle'', ''Aeo''))]"

text \<open>
  \<^verbatim>\<open>map_brand\<close> lower-cases its argument, looks it up and returns the pair
  \<^verbatim>\<open>(brand_name, sub_brand_name)\<close>; a text that is no key comes back as it is
  after the lower-casing, with an empty sub-brand.
\<close>

definition map_brand :: "string \<Rightarrow> string \<times> string" where
  "map_brand brand0 =
     (let brand = lower brand0
      in case map_of brand_mapping brand of
           Some mapped_brand \<Rightarrow> (fst mapped_brand, snd mapped_brand)
         | None \<Rightarrow> (brand, []))"

text \<open>
  Lines 250 to 254 of \<^verbatim>\<open>process_data\<close>: the column is lower-cased and trimmed,
  passed to \<^verbatim>\<open>map_brand\<close>, and the two fields of the result become the columns
  \<^verbatim>\<open>brand_name\<close> and \<^verbatim>\<open>sub_brand_name\<close>.
\<close>

definition apply_brand_mapping :: "row \<Rightarrow> row" where
  "apply_brand_mapping r0 =
     (let r1 = r0\<lparr>brand_name := lower (trim (brand_name r0))\<rparr>;
          brand_struct = map_brand (brand_name r1);
          r2 = r1\<lparr>brand_name := fst brand_struct\<rparr>
      in r2\<lparr>sub_brand_name := snd brand_struct\<rparr>)"


section \<open>Category Classifier\<close>

text \<open>
  The patterns of \<^verbatim>\<open>assign_category\<close> have two shapes:
  \<^verbatim>\<open>(?i)\b(w1|...|wn)\b\<close>, here \<open>Words [w1, ..., wn]\<close>, and \<^verbatim>\<open>.*\<close>, here
  \<open>Anything\<close>. \<^verbatim>\<open>rlike\<close> looks for a match anywhere in the text. A word pattern
  matches at position \<open>i\<close> when \<open>i\<close> is a word boundary, one of the alternatives is
  read there without regard to case, and the position behind it is a word boundary
  again. A word boundary has a word character on exactly one side.
\<close>

datatype pattern = Words "string list" | Anything

definition starts_with_word :: "string \<Rightarrow> bool" where
  "starts_with_word s = (case s of [] \<Rightarrow> False | c # _ \<Rightarrow> is_word c)"

definition word_boundary :: "string \<Rightarrow> nat \<Rightarrow> bool" where
  "word_boundary s i = (starts_with_word (rev (take i s)) \<noteq> starts_with_word (drop i s))"

fun prefix_ci :: "string \<Rightarrow> string \<Rightarrow> bool" where
  "prefix_ci [] s = True"
| "prefix_ci (a # as) [] = False"
| "prefix_ci (a # as) (c # cs) = (to_lower a = to_lower c \<and> prefix_ci as cs)"

definition rlike_words :: "string list \<Rightarrow> string \<Rightarrow> bool" where
  "rlike_words alts s =
     list_ex (\<lambda>i. word_boundary s i
                \<and> list_ex (\<lambda>a. prefix_ci a (drop i s) \<and> word_boundary s (i + length a)) alts)
       [0..<Suc (length s)]"

fun rlike :: "pattern \<Rightarrow> string \<Rightarrow> bool" where
  "rlike (Words alts) s = rlike_words alts s"
| "rlike Anything s = True"

definition category_patterns :: "(pattern \<times> string) list" where
  "category_patterns =
     [(Words [''bra'', ''push-up'', ''plunge'', ''demi'', ''balconette'', ''multi-way'',
              ''Embellished Underwire Bra'', ''bralette''], ''Bras''),
      (Words [''bandeau'', ''triangle bralette'', ''bralette''], ''Tops''),
      (Words [''hipster'', ''cheeky'', ''cheekster'', ''boyshort'', ''thong'', ''hiphugger'',
              ''boybrief'', ''v-string'', ''shortie'', ''brief'', ''panty'', ''hipkini'',
              ''cheekini'', ''tanga'', ''high cut brief'', ''high cut briefs''], ''Panties''),
      (Words [''bikini''], ''Bikinis''),
      (Words [''vikini'', ''v kini''], ''Bikinis''),
      (Words [''slip'', ''chemise'', ''babydoll'', ''teddy'', ''romper'', ''camisole'',
              ''bodysuit'', ''bustier'', ''garter belt''], ''Sleepwear and Lingerie''),
      (Words [''legging'', ''short'', ''jogger'', ''tank'', ''top'', ''hoodie'', ''tee'',
              ''shirt'', ''camisole'', ''crop'', ''sports bra'', ''shorts'', ''tank top''],
         ''Tops Sport''),
      (Anything, ''Other'')]"

text \<open>
  One turn of the loop rewrites the column for every row:
  \<^verbatim>\<open>when(category.isNull() & product_name.rlike(pattern), category).otherwise(category)\<close>.
  A \<^verbatim>\<open>product_name\<close> that is NULL makes the condition NULL. The column
  \<^verbatim>\<open>category\<close> is NULL on every row when the frame comes without it.
\<close>

definition category_step :: "pattern \<times> string \<Rightarrow> row \<Rightarrow> row" where
  "category_step pc r =
     r\<lparr>category :=
         case_when
           [(and3 (Some (category r = None)) (map_option (rlike (fst pc)) (product_name r)),
             Some (snd pc))]
           (category r)\<rparr>"

definition assign_category :: "row list \<Rightarrow> row list" where
  "assign_category df = foldl (\<lambda>d pc. map (category_step pc) d) df category_patterns"




section \<open>Exclusion Filter and Schema Assembler\<close>

definition exclude_sizes :: "string list" where
  "exclude_sizes =
     [''xs'', ''s'', ''m'', ''l'', ''xl'', ''xxl'', ''xlarge'', ''6'', ''7'', ''8'', ''9'',
      ''10'', ''2'', ''4'', ''12'', ''a'', ''b'', ''c'', ''d'', ''dd'', ''ddd'', ''xsmall'',
      ''14'', ''xxsmall'', ''aaa'', ''bc'']"

definition isin :: "'a \<Rightarrow> 'a list \<Rightarrow> bool option" where
  "isin v xs = Some (v \<in> set xs)"

text \<open>The condition of the \<^verbatim>\<open>filter\<close>; a row stays when it is true.\<close>

definition retained :: "row \<Rightarrow> bool option" where
  "retained r =
     and3 (not3 (and3 (eq3 (category r) ''Bras'') (isin (size_col r) exclude_sizes)))
          (not3 (and3 (eq3 (category r) ''Bralette'') (isin (size_col r) exclude_sizes)))"

definition exclusion_filter :: "row list \<Rightarrow> row list" where
  "exclusion_filter df = filter (\<lambda>r. retained r = Some True) df"

text \<open>
  \<^verbatim>\<open>row_number().over(Window.orderBy(monotonically_increasing_id()))\<close>: the window
  has no partition, so the whole frame is one sequence in the order of the
  increasing identifier, which is the order of the list here, and
  \<^verbatim>\<open>row_number\<close> counts along it from 1. The three \<^verbatim>\<open>withColumn\<close> calls of
  lines 271 to 273 use the same window.
\<close>

definition row_number :: "row list \<Rightarrow> int list" where
  "row_number df = map (\<lambda>i. int i + 1) [0..<length df]"

definition with_row_number :: "(row \<Rightarrow> int \<Rightarrow> row) \<Rightarrow> row list \<Rightarrow> row list" where
  "with_row_number put df = map (\<lambda>(r, n). put r n) (zip df (row_number df))"

definition assign_surrogate_keys :: "row list \<Rightarrow> row list" where
  "assign_surrogate_keys df0 =
     (let df1 = with_row_number (\<lambda>r n. r\<lparr>product_id := n\<rparr>) df0;
          df2 = with_row_number (\<lambda>r n. r\<lparr>retailer_id := n\<rparr>) df1
      in with_row_number (\<lambda>r n. r\<lparr>size_id := n\<rparr>) df2)"

text \<open>
  \<^verbatim>\<open>process_data\<close>, from the exploded sizes to the keyed rows. The stages that
  write other columns (duplicates, \<^verbatim>\<open>review_count\<close>, subcategories, colours) and
  the projections into the four output relations are left out.
\<close>

definition process_data :: "bool \<Rightarrow> row list \<Rightarrow> error + row list" where
  "process_data ansi df =
     (case normalize_and_explode_sizes ansi df of
        Inl e \<Rightarrow> Inl e
      | Inr df_normalized \<Rightarrow>
         (case calculate_initial_metrics ansi df_normalized of
            Inl e \<Rightarrow> Inl e
          | Inr df_metrics \<Rightarrow>
             Inr (assign_surrogate_keys
                    (exclusion_filter (assign_category (map apply_brand_mapping df_metrics))))))"


section \<open>Catalog rows and the specification's wording\<close>

text \<open>
  A row as the catalog gives it: name, brand, retailer and the two size arrays. The
  derived columns hold placeholders until their stage writes them.
\<close>

definition catalog_row ::
    "string option \<Rightarrow> string \<Rightarrow> string \<Rightarrow> string list \<Rightarrow> string list \<Rightarrow> row" where
  "catalog_row name brand shop sizes avail =
     \<lparr>product_name = name, brand_name = brand, sub_brand_name = [], retailer = shop,
      total_sizes = sizes, available_size = avail, size_col = [], size_number = None,
      size_letter = [], is_available = 0, size_group = [], total_offered_items = 0,
      available_items = 0, availability_percentage = None, status = [],
      Warning_Sanction = [], category = None, product_id = 0, retailer_id = 0,
      size_id = 0\<rparr>"

text \<open>
  The specification says that \<^verbatim>\<open>size_number\<close> is the leading numeric run of the
  token, absent when the token does not start with a digit.
\<close>

definition size_number_spec :: "string \<Rightarrow> int option" where
  "size_number_spec s =
     (if takeWhile is_digit s = [] then None
      else Some (int (digits_value (takeWhile is_digit s))))"

text \<open>
  The specification's seven ordered rules of the Size Classifier, the seventh being
  ``one or more uppercase letters A to Z''.
\<close>

definition size_group_spec :: "int option \<Rightarrow> string \<Rightarrow> string" where
  "size_group_spec n s =
     (if between n 30 32 = Some True then ''Small''
      else if between n 34 36 = Some True then ''Medium''
      else if between n 38 40 = Some True then ''Large''
      else if between n 42 46 = Some True then ''Extra Large''
      else if s \<noteq> [] \<and> list_all (\<lambda>c. c \<in> set ''SMLXsmlx'') s then ''Not Bras''
      else if s \<noteq> [] \<and> list_all (\<lambda>c. c \<in> set ''6789'') s then ''Not Bras''
      else if s \<noteq> [] \<and> list_all is_upper s then ''Not Bras''
      else ''Unknown'')"



section \<open>Properties of cleaning\<close>

lemmas char_classes = is_digit_def is_alpha_def is_upper_def is_lower_def is_alnum_def
  chr_between_def is_space_def is_line_terminator_def is_word_def

lemmas clean_eval = clean_size_def remove_whitespace_def trim_def strip_non_alnum_def
  char_classes

lemma alnum_not_space: "is_alnum c \<Longrightarrow> \<not> is_space c"
  by (auto simp: char_classes)

lemma alnum_not_paren: "is_alnum c \<Longrightarrow> c \<noteq> CHR ''(''"
  by (auto simp: char_classes)

lemma clean_size_alnum: "list_all is_alnum (clean_size s)"
  by (simp add: clean_size_def strip_non_alnum_def list_all_iff)

lemma remove_whitespace_alnum: "list_all is_alnum s \<Longrightarrow> remove_whitespace s = s"
  by (induction s) (auto simp: remove_whitespace_def alnum_not_space)

lemma dropWhile_none: "\<forall>c \<in> set s. \<not> P c \<Longrightarrow> dropWhile P s = s"
  by (cases s) auto

lemma trim_alnum: "list_all is_alnum s \<Longrightarrow> trim s = s"
proof -
  assume a: "list_all is_alnum s"
  have ns: "\<forall>c \<in> set s. \<not> c = CHR '' ''"
    using a alnum_not_space by (auto simp: list_all_iff is_space_def)
  then have "dropWhile (\<lambda>c. c = CHR '' '') s = s"
    by (rule dropWhile_none)
  moreover have "dropWhile (\<lambda>c. c = CHR '' '') (rev s) = rev s"
    using ns by (intro dropWhile_none) simp
  ultimately show ?thesis by (simp add: trim_def)
qed

lemma strip_parens_alnum: "list_all is_alnum s \<Longrightarrow> strip_parens s = s"
  by (induction s) (auto simp: alnum_not_paren)

lemma strip_non_alnum_alnum: "list_all is_alnum s \<Longrightarrow> strip_non_alnum s = s"
  by (induction s) (auto simp: strip_non_alnum_def)

lemma clean_size_fixes_alnum: "list_all is_alnum s \<Longrightarrow> clean_size s = s"
  by (simp add: clean_size_def remove_whitespace_alnum trim_alnum strip_parens_alnum
      strip_non_alnum_alnum)

text \<open>
  Claim C9. Cleaning a size token is idempotent: cleaning an already cleaned token
  (whitespace removal, then parenthetical stripping, then stripping of everything
  that is not a letter or a digit) gives the same token again, for every string.
\<close>

theorem clean_size_idempotent: "clean_size (clean_size s) = clean_size s"
  by (rule clean_size_fixes_alnum) (rule clean_size_alnum)


section \<open>Availability of a size\<close>

text \<open>
  The token that \<^verbatim>\<open>array_contains\<close> looks for is the cleaned one; the array it
  looks in is \<^verbatim>\<open>available_size\<close> as it came, whose entries no stage cleans.
\<close>

lemma is_available_raw_list:
  "normalize_size_row False r = Inr r' \<Longrightarrow>
   is_available r' = (if clean_size (size_col r) \<in> set (available_size r) then 1 else 0)"
  by (auto simp: normalize_size_row_def cast_int_def clean_size_def Let_def array_contains_def
      split: if_splits)

text \<open>
  Claim C1. The specification makes \<^verbatim>\<open>is_available\<close> the membership of the
  cleaned token in the cleaned \<^verbatim>\<open>available_size\<close> list. On a product whose only
  size is written \<^verbatim>\<open>32 B\<close> in both \<^verbatim>\<open>total_sizes\<close> and \<^verbatim>\<open>available_size\<close>
  the source produces the token \<^verbatim>\<open>32B\<close> with \<^verbatim>\<open>is_available = 0\<close>, although the
  cleaned token is a member of the cleaned list: the size is offered and available,
  and the column says it is not.
\<close>

theorem is_available_failing_input:
  "map_sum id (map (\<lambda>r. (size_col r, is_available r)))
     (normalize_and_explode_sizes False
        [catalog_row (Some ''Lace Bra'') ''wacoal'' ''Macys'' [''32 B''] [''32 B'']])
     = Inr [(''32B'', 0)]
   \<and> clean_size ''32 B'' \<in> set (map clean_size [''32 B''])"
  by (simp add: normalize_and_explode_sizes_def explode_sizes_def normalize_size_row_def
      cast_int_def clean_eval first_digit_run_def array_contains_def
      digits_value_def digit_value_def catalog_row_def)


section \<open>Size Classifier\<close>

lemma class_ci_smlx: "class_ci (\<lambda>c. c \<in> set ''SMLXLXXL'') c = (c \<in> set ''SMLXsmlx'')"
  by (cases c) (simp add: class_ci_def to_lower_def to_upper_def char_classes, blast?)

lemma class_ci_6789: "class_ci (\<lambda>c. c \<in> set ''6789'') c = (c \<in> set ''6789'')"
  by (cases c) (simp add: class_ci_def to_lower_def to_upper_def char_classes, blast?)

lemma class_ci_AZ: "class_ci (chr_between (CHR ''A'') (CHR ''Z'')) c = is_alpha c"
  by (cases c) (simp add: class_ci_def to_lower_def to_upper_def char_classes)

lemma class_ci_fun_simps:
  "class_ci (\<lambda>c. c \<in> set ''SMLXLXXL'') = (\<lambda>c. c \<in> set ''SMLXsmlx'')"
  "class_ci (\<lambda>c. c \<in> set ''6789'') = (\<lambda>c. c \<in> set ''6789'')"
  "class_ci (chr_between (CHR ''A'') (CHR ''Z'')) = is_alpha"
  using class_ci_smlx class_ci_6789 class_ci_AZ by (intro ext, simp)+

lemma alnum_not_line_end: "is_alnum c \<Longrightarrow> c \<noteq> CHR 0x0A \<and> c \<noteq> CHR 0x0D"
  by (auto simp: char_classes)

lemma at_end_alnum: "list_all is_alnum r \<Longrightarrow> at_end r = (r = [])"
  by (cases r) (auto simp: at_end_def dest: alnum_not_line_end)

lemma dropWhile_alnum: "list_all is_alnum s \<Longrightarrow> list_all is_alnum (dropWhile P s)"
  by (induction s) auto

lemma rlike_class_plus_alnum:
  assumes a: "list_all is_alnum s"
  shows "rlike_class_plus cls s = (s \<noteq> [] \<and> list_all cls s)"
proof (cases "list_all cls s")
  case True
  then have t: "takeWhile cls s = s" and d: "dropWhile cls s = []"
    by (simp_all add: list_all_iff)
  have "at_end []" by (simp add: at_end_def)
  then show ?thesis using True unfolding rlike_class_plus_def t d by simp
next
  case False
  then have "dropWhile cls s \<noteq> []"
    by (simp add: list_all_iff)
  then have "\<not> at_end (dropWhile cls s)"
    using at_end_alnum [OF dropWhile_alnum [OF a], of cls] by simp
  then show ?thesis using False by (simp add: rlike_class_plus_def)
qed

lemma size_group_of_unfold:
  "size_group_of n s =
     (if between n 30 32 = Some True then ''Small''
      else if between n 34 36 = Some True then ''Medium''
      else if between n 38 40 = Some True then ''Large''
      else if between n 42 46 = Some True then ''Extra Large''
      else if rlike_class_plus (class_ci (\<lambda>c. c \<in> set ''SMLXLXXL'')) s then ''Not Bras''
      else if rlike_class_plus (class_ci (\<lambda>c. c \<in> set ''6789'')) s then ''Not Bras''
      else if rlike_class_plus (class_ci (chr_between (CHR ''A'') (CHR ''Z''))) s then ''Not Bras''
      else ''Unknown'')"
  by (simp add: size_group_of_def size_conditions_def when_col_def)

text \<open>
  Claim C2, as amended. The size group of a cleaned token is decided by seven rules
  in order, the first that matches winning, and is \<^verbatim>\<open>Unknown\<close> when none does:
  \<^verbatim>\<open>size_number\<close> in 30..32 gives Small, in 34..36 Medium, in 38..40 Large, in
  42..46 Extra Large; then a token of one or more letters out of S, M, L, X in either
  case, a token of one or more digits out of 6, 7, 8, 9, and a token of one or more
  letters A to Z in either case (the pattern carries \<^verbatim>\<open>(?i)\<close>) give Not Bras.
  A token whose \<^verbatim>\<open>size_number\<close> is 31 is Small whatever its text.
\<close>

theorem size_group_first_match:
  "size_group_of n (clean_size raw) =
     (if between n 30 32 = Some True then ''Small''
      else if between n 34 36 = Some True then ''Medium''
      else if between n 38 40 = Some True then ''Large''
      else if between n 42 46 = Some True then ''Extra Large''
      else if clean_size raw \<noteq> [] \<and> list_all (\<lambda>c. c \<in> set ''SMLXsmlx'') (clean_size raw)
        then ''Not Bras''
      else if clean_size raw \<noteq> [] \<and> list_all (\<lambda>c. c \<in> set ''6789'') (clean_size raw)
        then ''Not Bras''
      else if clean_size raw \<noteq> [] \<and> list_all is_alpha (clean_size raw) then ''Not Bras''
      else ''Unknown'')
   \<and> size_group_of (Some 31) s = ''Small''"
  unfolding size_group_of_unfold class_ci_fun_simps
    rlike_class_plus_alnum [OF clean_size_alnum]
  by (simp add: between_def)

theorem size_group_first_match_witness:
  "size_group_of (Some 31) (clean_size ''31 (EU)'') = ''Small''
   \<and> size_group_of None (clean_size ''x-l'') = ''Not Bras''
   \<and> size_group_of (Some 48) (clean_size ''48C'') = ''Unknown''"
proof -
  have c: "clean_size ''31 (EU)'' = ''31''" "clean_size ''x-l'' = ''xl''"
    "clean_size ''48C'' = ''48C''"
    by (simp_all add: clean_eval)
  show ?thesis
    using size_group_first_match [of "Some 31" "''31 (EU)''" "[]"]
      size_group_first_match [of None "''x-l''" "[]"]
      size_group_first_match [of "Some 48" "''48C''" "[]"]
    unfolding c by (simp add: char_classes between_def)
qed

text \<open>
  The claim as the specification words it fails on a lower-case token: \<^verbatim>\<open>abc\<close>
  matches none of the specification's seven rules, so it would be \<^verbatim>\<open>Unknown\<close>,
  and the source classifies it Not Bras.
\<close>

theorem size_group_uppercase_counterexample:
  "map_sum id (map (\<lambda>r. (size_col r, size_number r, size_group r)))
     (normalize_and_explode_sizes False [catalog_row None [] [] [''abc''] []])
     = Inr [(''abc'', None, ''Not Bras'')]
   \<and> size_group_spec None ''abc'' = ''Unknown''"
  by (simp add: normalize_and_explode_sizes_def explode_sizes_def normalize_size_row_def
      cast_int_def clean_eval first_digit_run_def catalog_row_def
      size_group_of_unfold size_group_spec_def between_def rlike_class_plus_def
      class_ci_def to_lower_def to_upper_def at_end_def)


section \<open>Size Normalizer: number and letters of a token\<close>

lemma letters_at_end_alnum:
  "list_all is_alnum s \<Longrightarrow> letters_at_end s = rev (takeWhile is_alpha (rev s))"
proof (induction s)
  case Nil
  then show ?case by simp
next
  case (Cons c cs)
  then have cs: "list_all is_alnum cs" by simp
  have e: "at_end (dropWhile is_alpha cs) = list_all is_alpha cs"
    using at_end_alnum [OF dropWhile_alnum [OF cs], of is_alpha]
    by (simp add: list_all_iff)
  show ?case
  proof (cases "is_alpha c \<and> list_all is_alpha cs")
    case True
    then have all: "\<forall>x \<in> set (rev cs @ [c]). is_alpha x"
      by (auto simp: list_all_iff)
    have t1: "takeWhile is_alpha (rev cs @ [c]) = rev cs @ [c]"
      using all by (simp only: takeWhile_eq_all_conv)
    have t2: "takeWhile is_alpha cs = cs"
      using True by (simp add: list_all_iff)
    have "letters_at_end (c # cs) = c # takeWhile is_alpha cs"
      using True e by simp
    then have "letters_at_end (c # cs) = c # cs"
      unfolding t2 .
    moreover have "rev (takeWhile is_alpha (rev (c # cs))) = c # cs"
      unfolding rev.simps t1 by simp
    ultimately show ?thesis by (simp only:)
  next
    case False
    have "takeWhile is_alpha (rev cs @ [c]) = takeWhile is_alpha (rev cs)"
    proof (cases "list_all is_alpha cs")
      case True
      with False have nc: "\<not> is_alpha c" by simp
      have "takeWhile is_alpha (rev cs) = rev cs"
        using True by (simp add: list_all_iff)
      moreover have "takeWhile is_alpha (rev cs @ [c]) = rev cs"
        using True nc by (simp add: takeWhile_append list_all_iff)
      ultimately show ?thesis by (simp only:)
    next
      case False
      then show ?thesis by (auto simp: takeWhile_append list_all_iff)
    qed
    moreover have "letters_at_end (c # cs) = letters_at_end cs"
      using False e by auto
    ultimately show ?thesis using Cons.IH [OF cs] by simp
  qed
qed

lemma first_digit_run_no_digit: "\<not> list_ex is_digit s \<Longrightarrow> first_digit_run s = []"
  by (induction s) (auto simp: first_digit_run_def)

lemma first_digit_run_leading:
  "s \<noteq> [] \<Longrightarrow> is_digit (hd s) \<Longrightarrow> first_digit_run s = takeWhile is_digit s"
  by (cases s) (auto simp: first_digit_run_def)

text \<open>
  Claim C4, as amended. With the session's casts returning NULL on a bad input (ANSI
  mode off), the normalization of a row never fails, and on its cleaned token:
  \<^verbatim>\<open>size_number\<close> is the first run of digits found anywhere in the token, read as
  a number, and is absent when the token holds no digit or the number does not fit a
  32-bit integer; when the token starts with a digit, that run is the leading run;
  \<^verbatim>\<open>size_letter\<close> is the trailing run of letters, empty when the token does not
  end in a letter. A token without a digit and without a letter at its end gives an
  absent \<^verbatim>\<open>size_number\<close> and an empty \<^verbatim>\<open>size_letter\<close>.
\<close>

theorem size_parts_extracted:
  "\<exists>r'. normalize_size_row False r = Inr r'
      \<and> size_col r' = clean_size (size_col r)
      \<and> size_number r' =
          (if first_digit_run (size_col r') \<noteq> []
              \<and> digits_value (first_digit_run (size_col r')) \<le> 2147483647
           then Some (int (digits_value (first_digit_run (size_col r')))) else None)
      \<and> (size_col r' \<noteq> [] \<and> is_digit (hd (size_col r'))
           \<longrightarrow> first_digit_run (size_col r') = takeWhile is_digit (size_col r'))
      \<and> (\<not> list_ex is_digit (size_col r') \<longrightarrow> size_number r' = None)
      \<and> size_letter r' = rev (takeWhile is_alpha (rev (size_col r')))"
proof -
  let ?t = "clean_size (size_col r)"
  have digits: "list_all is_digit (first_digit_run ?t)"
    by (simp add: first_digit_run_def list_all_iff) (meson set_takeWhileD)
  have "letters_at_end ?t = rev (takeWhile is_alpha (rev ?t))"
    by (rule letters_at_end_alnum) (rule clean_size_alnum)
  then show ?thesis
    using digits
    using first_digit_run_no_digit [of ?t]
    by (auto simp: normalize_size_row_def cast_int_def clean_size_def [symmetric] Let_def
        first_digit_run_leading)
qed

theorem size_parts_extracted_witness:
  "\<exists>r'. normalize_size_row False (catalog_row None [] [] [] []\<lparr>size_col := ''XL (US)''\<rparr>) = Inr r'
      \<and> size_col r' = ''XL'' \<and> size_number r' = None \<and> size_letter r' = ''XL''"
proof -
  have c: "clean_size ''XL (US)'' = ''XL''"
    by (simp add: clean_eval)
  have nd: "\<not> list_ex is_digit ''XL''"
    by (simp add: char_classes)
  have l: "rev (takeWhile is_alpha (rev ''XL'')) = ''XL''"
    by (simp add: char_classes)
  from size_parts_extracted [of "catalog_row None [] [] [] []\<lparr>size_col := ''XL (US)''\<rparr>"]
  obtain r' where
    "normalize_size_row False (catalog_row None [] [] [] []\<lparr>size_col := ''XL (US)''\<rparr>) = Inr r'"
    and "size_col r' = ''XL''"
    and "\<not> list_ex is_digit (size_col r') \<longrightarrow> size_number r' = None"
    and "size_letter r' = rev (takeWhile is_alpha (rev (size_col r')))"
    using c by auto
  then show ?thesis using nd l by auto
qed

text \<open>
  The claim as the specification words it fails on a token that does not start with
  a digit and holds one later: \<^verbatim>\<open>B32\<close> gets \<^verbatim>\<open>size_number = 32\<close> from the
  source, and the leading numeric run of the specification is absent.
\<close>

theorem size_number_leading_counterexample:
  "map_sum id size_number
     (normalize_size_row False (catalog_row None [] [] [] []\<lparr>size_col := ''B32''\<rparr>))
     = Inr (Some 32)
   \<and> size_number_spec ''B32'' = None"
  by (simp add: normalize_size_row_def cast_int_def clean_eval first_digit_run_def
      digits_value_def digit_value_def size_number_spec_def catalog_row_def)

text \<open>
  With ANSI mode on, the cast of the empty capture is an error: a token without a
  digit stops the job, which is why the pipeline needs the mode off.
\<close>

lemma normalize_size_row_ansi_fails:
  "\<not> list_ex is_digit (clean_size (size_col r)) \<Longrightarrow>
   normalize_size_row True r = Inl CastInvalidInput"
  by (simp add: normalize_size_row_def cast_int_def clean_size_def [symmetric] Let_def
      first_digit_run_no_digit)

text \<open>
  Every row that leaves the explosion carries a \<^verbatim>\<open>total_sizes\<close> array with at
  least the entry it was made from.
\<close>

lemma collect_Inr:
  "collect xs = Inr ys \<Longrightarrow> xs = map Inr ys"
  by (induction xs arbitrary: ys) (auto split: sum.splits)

lemma normalize_size_row_total_sizes:
  "normalize_size_row ansi r = Inr r' \<Longrightarrow> total_sizes r' = total_sizes r"
  by (auto simp: normalize_size_row_def Let_def split: sum.splits)

lemma exploded_rows_have_sizes:
  assumes "normalize_and_explode_sizes ansi df = Inr out" and "r' \<in> set out"
  shows "total_sizes r' \<noteq> []"
proof -
  from assms(1) have "map (normalize_size_row ansi) (concat (map explode_sizes df)) = map Inr out"
    unfolding normalize_and_explode_sizes_def by (rule collect_Inr)
  with assms(2) have "Inr r' \<in> set (map (normalize_size_row ansi) (concat (map explode_sizes df)))"
    by simp
  then obtain r where r: "r \<in> set (concat (map explode_sizes df))"
    and "Inr r' = normalize_size_row ansi r"
    unfolding set_map by blast
  then have n: "normalize_size_row ansi r = Inr r'" by simp
  from r have "total_sizes r \<noteq> []"
    by (auto simp: explode_sizes_def)
  with normalize_size_row_total_sizes [OF n] show ?thesis by simp
qed


section \<open>Binary rounding is monotone\<close>

lemma round_half_even_bounds: "\<lfloor>x\<rfloor> \<le> round_half_even x \<and> round_half_even x \<le> \<lfloor>x\<rfloor> + 1"
  by (simp add: round_half_even_def Let_def)

lemma round_half_even_mono: "x \<le> y \<Longrightarrow> round_half_even x \<le> round_half_even y"
proof -
  assume xy: "x \<le> y"
  then have "\<lfloor>x\<rfloor> \<le> \<lfloor>y\<rfloor>" by (rule floor_mono)
  then consider "\<lfloor>x\<rfloor> = \<lfloor>y\<rfloor>" | "\<lfloor>x\<rfloor> + 1 \<le> \<lfloor>y\<rfloor>" by linarith
  then show ?thesis
  proof cases
    case 1
    then show ?thesis using xy by (auto simp: round_half_even_def Let_def)
  next
    case 2
    then show ?thesis
      using round_half_even_bounds [of x] round_half_even_bounds [of y] by linarith
  qed
qed

lemma round_half_even_of_int: "round_half_even (of_int n) = n"
  by (simp add: round_half_even_def)

lemma powi_bitlen:
  assumes "0 < n"
  shows "(2::rat) powi (bitlen n - 1) \<le> of_int n" and "of_int n < (2::rat) powi (bitlen n)"
proof -
  have b: "2 ^ nat (bitlen n - 1) \<le> n" "n < 2 ^ nat (bitlen n)"
    using bitlen_bounds [OF assms] by auto
  have pos: "1 \<le> bitlen n"
    using assms bitlen_eq_zero_iff [of n] bitlen_nonneg [of n] by linarith
  have "(2::rat) powi (bitlen n - 1) = 2 ^ nat (bitlen n - 1)"
    using pos by (simp add: power_int_def)
  also have "\<dots> = of_int (2 ^ nat (bitlen n - 1))" by simp
  also have "\<dots> \<le> of_int n" using b(1) by (simp only: of_int_le_iff)
  finally show "(2::rat) powi (bitlen n - 1) \<le> of_int n" .
  have "of_int n < (of_int (2 ^ nat (bitlen n)) :: rat)"
    using b(2) by (simp only: of_int_less_iff)
  also have "\<dots> = 2 powi (bitlen n)"
    using pos by (simp add: power_int_def)
  finally show "of_int n < (2::rat) powi (bitlen n)" .
qed

lemma binary_exponent_bounds:
  assumes "x \<noteq> 0"
  shows "2 powi (binary_exponent x) \<le> \<bar>x\<bar>" and "\<bar>x\<bar> < 2 powi (binary_exponent x + 1)"
proof -
  define n where "n = fst (quotient_of \<bar>x\<bar>)"
  define d where "d = snd (quotient_of \<bar>x\<bar>)"
  define k where "k = bitlen n - bitlen d"
  have q: "quotient_of \<bar>x\<bar> = (n, d)" by (simp add: n_def d_def)
  have d: "0 < d" using quotient_of_denom_pos [OF q] .
  have ax: "\<bar>x\<bar> = of_int n / of_int d" using quotient_of_div [OF q] .
  have "0 < \<bar>x\<bar>" using assms by simp
  then have n: "0 < n" using d ax by (simp add: zero_less_divide_iff)
  have up: "\<bar>x\<bar> < 2 powi (k + 1)"
  proof -
    have "of_int n < (2::rat) powi (bitlen n)" using powi_bitlen(2) [OF n] .
    moreover have "(2::rat) powi (bitlen d - 1) \<le> of_int d" using powi_bitlen(1) [OF d] .
    ultimately have "of_int n * (2::rat) powi (bitlen d - 1) < 2 powi (bitlen n) * of_int d"
      using n d by (intro mult_less_le_imp_less) auto
    then have "of_int n / of_int d < (2::rat) powi (bitlen n) / 2 powi (bitlen d - 1)"
      using d by (simp add: field_simps)
    also have "\<dots> = 2 powi (bitlen n - (bitlen d - 1))"
      by (rule power_int_diff [symmetric]) simp
    also have "bitlen n - (bitlen d - 1) = k + 1"
      by (simp add: k_def)
    finally show ?thesis using ax by simp
  qed
  have lo: "2 powi (k - 1) \<le> \<bar>x\<bar>"
  proof -
    have "(2::rat) powi (bitlen n - 1) \<le> of_int n" using powi_bitlen(1) [OF n] .
    moreover have "of_int d < (2::rat) powi (bitlen d)" using powi_bitlen(2) [OF d] .
    ultimately have "(2::rat) powi (bitlen n - 1) * of_int d \<le> of_int n * 2 powi (bitlen d)"
      using n d by (intro mult_mono) auto
    then have "(2::rat) powi (bitlen n - 1) / 2 powi (bitlen d) \<le> of_int n / of_int d"
      using d by (simp add: field_simps)
    moreover have "(2::rat) powi (bitlen n - 1) / 2 powi (bitlen d) = 2 powi (bitlen n - 1 - bitlen d)"
      by (rule power_int_diff [symmetric]) simp
    moreover have "bitlen n - 1 - bitlen d = k - 1"
      by (simp add: k_def)
    ultimately show ?thesis using ax by simp
  qed
  have be: "binary_exponent x = (if 2 powi k \<le> \<bar>x\<bar> then k else k - 1)"
    by (simp add: binary_exponent_def k_def n_def d_def Let_def)
  show "2 powi (binary_exponent x) \<le> \<bar>x\<bar>" using lo by (simp add: be)
  show "\<bar>x\<bar> < 2 powi (binary_exponent x + 1)" using up by (auto simp: be)
qed

lemma round_binary_nonneg: "0 \<le> x \<Longrightarrow> 0 \<le> round_binary p emin x"
proof -
  assume x: "0 \<le> x"
  have "0 \<le> round_half_even (x / q)" if "0 < q" for q :: rat
  proof -
    have "0 \<le> x / q" using x that by simp
    then have "0 \<le> \<lfloor>x / q\<rfloor>" by simp
    then show ?thesis using round_half_even_bounds [of "x / q"] by linarith
  qed
  then show ?thesis
    by (simp add: round_binary_def Let_def)
qed

lemma binary_exponent_mono:
  assumes "0 < x" and "x \<le> y"
  shows "binary_exponent x \<le> binary_exponent y"
proof (rule ccontr)
  assume "\<not> binary_exponent x \<le> binary_exponent y"
  then have "binary_exponent y + 1 \<le> binary_exponent x" by simp
  then have "(2::rat) powi (binary_exponent y + 1) \<le> 2 powi (binary_exponent x)"
    by (intro power_int_increasing) simp_all
  also have "\<dots> \<le> \<bar>x\<bar>" using binary_exponent_bounds(1) [of x] assms by simp
  also have "\<dots> \<le> \<bar>y\<bar>" using assms by simp
  also have "\<dots> < 2 powi (binary_exponent y + 1)"
    using binary_exponent_bounds(2) [of y] assms by simp
  finally show False by simp
qed

lemma round_binary_mono:
  assumes p: "1 \<le> p" and x: "0 \<le> x" and xy: "x \<le> y"
  shows "round_binary p emin x \<le> round_binary p emin y"
proof (cases "x = 0")
  case True
  then show ?thesis using round_binary_nonneg [of y p emin] x xy by (simp add: round_binary_def)
next
  case False
  then have xp: "0 < x" and yp: "0 < y" using x xy by simp_all
  define ex where "ex = max (binary_exponent x) emin"
  define ey where "ey = max (binary_exponent y) emin"
  define qx :: rat where "qx = 2 powi (ex - int p + 1)"
  define qy :: rat where "qy = 2 powi (ey - int p + 1)"
  have rx: "round_binary p emin x = of_int (round_half_even (x / qx)) * qx"
    using xp by (simp add: round_binary_def ex_def qx_def Let_def)
  have ry: "round_binary p emin y = of_int (round_half_even (y / qy)) * qy"
    using yp by (simp add: round_binary_def ey_def qy_def Let_def)
  have qxp: "0 < qx" and qyp: "0 < qy" by (simp_all add: qx_def qy_def)
  have le: "ex \<le> ey"
    using binary_exponent_mono [OF xp xy] by (simp add: ex_def ey_def)
  show ?thesis
  proof (cases "ex = ey")
    case True
    then have "qx = qy" by (simp add: qx_def qy_def)
    moreover have "x / qy \<le> y / qy" using xy qyp by (simp add: divide_right_mono)
    ultimately show ?thesis
      using round_half_even_mono [of "x / qy" "y / qy"] qyp by (simp add: rx ry)
  next
    case False
    with le have lt: "ex + 1 \<le> ey" by simp
    then have eyb: "ey = binary_exponent y" by (auto simp: ey_def ex_def)
    define m :: rat where "m = 2 powi (ex + 1)"
    have "x < 2 powi (binary_exponent x + 1)"
      using binary_exponent_bounds(2) [of x] xp by simp
    also have "\<dots> \<le> m"
      unfolding m_def by (intro power_int_increasing) (simp_all add: ex_def)
    finally have xm: "x \<le> m" by simp
    have mq: "m / qx = of_int (2 ^ p)"
    proof -
      have "m / qx = 2 powi (ex + 1 - (ex - int p + 1))"
        unfolding m_def qx_def by (rule power_int_diff [symmetric]) simp
      also have "ex + 1 - (ex - int p + 1) = int p" by simp
      finally show ?thesis by (simp add: power_int_of_nat)
    qed
    have "x / qx \<le> m / qx" using xm qxp by (simp add: divide_right_mono)
    then have "round_half_even (x / qx) \<le> 2 ^ p"
      using round_half_even_mono [of "x / qx" "m / qx"]
      unfolding mq round_half_even_of_int by simp
    then have "(of_int (round_half_even (x / qx)) :: rat) \<le> of_int (2 ^ p)"
      by (simp only: of_int_le_iff)
    then have "of_int (round_half_even (x / qx)) * qx \<le> of_int (2 ^ p) * qx"
      using qxp by (simp only: mult_le_cancel_right) simp
    also have "of_int (2 ^ p) * qx = m"
      using mq qxp by (simp add: field_simps)
    finally have up: "round_binary p emin x \<le> m" by (simp add: rx)
    define t :: rat where "t = 2 powi ey"
    have mt: "m \<le> t"
      unfolding m_def t_def using lt by (intro power_int_increasing) simp_all
    have ty: "t \<le> y"
      using binary_exponent_bounds(1) [of y] yp by (simp add: t_def eyb)
    have tq: "t / qy = of_int (2 ^ (p - 1))"
    proof -
      have "t / qy = 2 powi (ey - (ey - int p + 1))"
        unfolding t_def qy_def by (rule power_int_diff [symmetric]) simp
      also have "ey - (ey - int p + 1) = int (p - 1)" using p by simp
      finally show ?thesis by (simp add: power_int_of_nat)
    qed
    have "t / qy \<le> y / qy" using ty qyp by (simp add: divide_right_mono)
    then have "2 ^ (p - 1) \<le> round_half_even (y / qy)"
      using round_half_even_mono [of "t / qy" "y / qy"]
      unfolding tq round_half_even_of_int by simp
    then have "(of_int (2 ^ (p - 1)) :: rat) \<le> of_int (round_half_even (y / qy))"
      by (simp only: of_int_le_iff)
    then have "of_int (2 ^ (p - 1)) * qy \<le> of_int (round_half_even (y / qy)) * qy"
      using qyp by (simp only: mult_le_cancel_right) simp
    moreover have "of_int (2 ^ (p - 1)) * qy = t"
      using tq qyp by (simp add: field_simps)
    ultimately have "t \<le> round_binary p emin y" by (simp add: ry)
    with up mt show ?thesis by linarith
  qed
qed

text \<open>
  The stored ratio is a double cast to single precision; the literals are doubles.
  On a number of hundredths that is not negative the comparison of the stored ratio
  with a literal comes out as the comparison of the decimals does.
\<close>

lemma stored_mono:
  "0 \<le> x \<Longrightarrow> x \<le> y \<Longrightarrow> to_float32 (to_double x) \<le> to_float32 (to_double y)"
  unfolding to_float32_def to_double_def
  by (intro round_binary_mono round_binary_nonneg) simp_all

lemma stored_points:
  "to_float32 (to_double (29 / 100)) < to_double (3 / 10)"
  "to_double (3 / 10) \<le> to_float32 (to_double (3 / 10))"
  "to_float32 (to_double (49 / 100)) < to_double (1 / 2)"
  "to_double (1 / 2) \<le> to_float32 (to_double (1 / 2))"
  by code_simp+

lemma hundredths_below:
  assumes r: "r = of_int k / 100" and lt: "r < of_int n / 100"
  shows "r \<le> of_int (n - 1) / (100::rat)"
proof -
  have "(of_int k :: rat) < of_int n" using r lt by simp
  then have "k < n" by (simp only: of_int_less_iff)
  then have "k \<le> n - 1" by simp
  then have "(of_int k :: rat) \<le> of_int (n - 1)" by (simp only: of_int_le_iff)
  then show ?thesis using r by simp
qed

lemma stored_threshold:
  assumes nn: "0 \<le> r" and r: "r = of_int k / 100"
  shows "(to_float32 (to_double r) < to_double (3 / 10)) = (r < 3 / 10)"
    and "(to_float32 (to_double r) < to_double (1 / 2)) = (r < 1 / 2)"
proof -
  show "(to_float32 (to_double r) < to_double (3 / 10)) = (r < 3 / 10)"
  proof (cases "r < 3 / 10")
    case True
    then have "r \<le> 29 / 100" using hundredths_below [OF r, of 30] by simp
    then show ?thesis
      using stored_mono [OF nn, of "29 / 100"] stored_points(1) True by simp
  next
    case False
    then show ?thesis
      using stored_mono [of "3 / 10" r] stored_points(2) by simp
  qed
  show "(to_float32 (to_double r) < to_double (1 / 2)) = (r < 1 / 2)"
  proof (cases "r < 1 / 2")
    case True
    then have "r \<le> 49 / 100" using hundredths_below [OF r, of 50] by simp
    then show ?thesis
      using stored_mono [OF nn, of "49 / 100"] stored_points(3) True by simp
  next
    case False
    then show ?thesis
      using stored_mono [of "1 / 2" r] stored_points(4) by simp
  qed
qed

lemma round_half_up_nonneg:
  assumes "0 \<le> x"
  shows "round_half_up 2 x = of_int \<lfloor>x * 100 + 1 / 2\<rfloor> / 100" and "0 \<le> round_half_up 2 x"
proof -
  show e: "round_half_up 2 x = of_int \<lfloor>x * 100 + 1 / 2\<rfloor> / 100"
  proof (cases "x = 0")
    case True
    have "\<lfloor>(1::rat) / 2\<rfloor> = 0" by (rule floor_unique) simp_all
    with True show ?thesis by (simp add: round_half_up_def)
  next
    case False
    then have "sgn x = 1" "\<bar>x\<bar> = x" using assms by simp_all
    then show ?thesis by (simp add: round_half_up_def)
  qed
  have "0 \<le> x * 100 + 1 / 2" using assms by simp
  then have "0 \<le> \<lfloor>x * 100 + 1 / 2\<rfloor>" by simp
  then show "0 \<le> round_half_up 2 x" unfolding e by simp
qed


section \<open>Metrics Calculator\<close>

text \<open>The row that the metrics stage makes of a row with at least one offered size.\<close>

lemma metrics_row_nonempty:
  assumes t: "total_sizes r \<noteq> []"
  defines "p \<equiv> round_half_up 2 (of_nat (length (available_size r)) / of_nat (length (total_sizes r)))"
  shows "calculate_metrics_row ansi r =
    Inr (r\<lparr>total_offered_items := int (length (total_sizes r)),
           available_items := int (length (available_size r)),
           availability_percentage := Some (to_float32 (to_double p)),
           status := (if p < 3 / 10 then ''Sanction'' else if p < 1 / 2 then ''Warning'' else ''OK''),
           Warning_Sanction :=
             (if size_group r = ''Extra Large''
              then (if p < 3 / 10 then ''Sanction'' else if p < 1 / 2 then ''Warning'' else [])
              else [])\<rparr>)"
proof -
  have q: "0 \<le> (of_nat (length (available_size r)) :: rat) / of_nat (length (total_sizes r))"
    by simp
  have p0: "0 \<le> p" and pk: "p = of_int \<lfloor>(of_nat (length (available_size r)) :: rat) / of_nat (length (total_sizes r)) * 100 + 1 / 2\<rfloor> / 100"
    unfolding p_def using round_half_up_nonneg [OF q] by simp_all
  note th = stored_threshold [OF p0 pk]
  show ?thesis
    using t th
    by (simp add: calculate_metrics_row_def spark_divide_def Let_def lt3_def ge3_def p_def [symmetric] not_less [symmetric])
qed
text \<open>
  Claim C3. On every row with at least one offered size (every row that leaves the
  explosion is one), in either mode of the session: \<^verbatim>\<open>total_offered_items\<close> and
  \<^verbatim>\<open>available_items\<close> are the lengths of the two arrays,
  \<^verbatim>\<open>availability_percentage\<close> is their quotient rounded half-up to two decimals
  (the column holds the single-precision number nearest to that decimal), and
  \<^verbatim>\<open>status\<close> is Sanction when the rounded quotient is below 0.30, Warning when it
  is at least 0.30 and below 0.50, and OK otherwise. Ten offered sizes with three
  available give 0.30 and Warning: the lower bound is inclusive.
\<close>

theorem availability_status:
  "total_sizes r \<noteq> [] \<Longrightarrow>
   \<exists>r'. calculate_metrics_row ansi r = Inr r'
     \<and> total_offered_items r' = int (length (total_sizes r))
     \<and> available_items r' = int (length (available_size r))
     \<and> availability_percentage r' =
         Some (to_float32 (to_double
           (round_half_up 2 (of_int (available_items r') / of_int (total_offered_items r')))))
     \<and> status r' =
         (if round_half_up 2 (of_int (available_items r') / of_int (total_offered_items r')) < 3 / 10
          then ''Sanction''
          else if round_half_up 2 (of_int (available_items r') / of_int (total_offered_items r')) < 1 / 2
          then ''Warning'' else ''OK'')
     \<and> (total_offered_items r' = 10 \<and> available_items r' = 3
          \<longrightarrow> availability_percentage r' = Some (to_float32 (to_double (3 / 10)))
              \<and> status r' = ''Warning'')"
proof -
  assume t: "total_sizes r \<noteq> []"
  have e: "round_half_up 2 (3 / 10) = 3 / 10"
    by code_simp
  show ?thesis
    unfolding metrics_row_nonempty [OF t] by (auto simp: e)
qed

theorem availability_status_witness:
  "\<exists>r'. calculate_metrics_row False
          (catalog_row None [] []
             [''30A'', ''30B'', ''32A'', ''32B'', ''34A'', ''34B'', ''36A'', ''36B'', ''38A'', ''38B'']
             [''30A'', ''32B'', ''36A'']) = Inr r'
     \<and> total_offered_items r' = 10 \<and> available_items r' = 3
     \<and> availability_percentage r' = Some (5033165 / 16777216)
     \<and> round_half_up 2 (5033165 / 16777216) = 3 / 10
     \<and> status r' = ''Warning''"
proof -
  let ?r = "catalog_row None [] []
             [''30A'', ''30B'', ''32A'', ''32B'', ''34A'', ''34B'', ''36A'', ''36B'', ''38A'', ''38B'']
             [''30A'', ''32B'', ''36A'']"
  have t: "total_sizes ?r \<noteq> []" by (simp add: catalog_row_def)
  have l: "int (length (total_sizes ?r)) = 10" "int (length (available_size ?r)) = 3"
    by (simp_all add: catalog_row_def)
  have f: "to_float32 (to_double (3 / 10)) = 5033165 / 16777216"
    by code_simp
  have h: "round_half_up 2 (5033165 / 16777216) = 3 / 10"
    by code_simp
  from availability_status [OF t, of False] obtain r' where
    "calculate_metrics_row False ?r = Inr r'"
    "total_offered_items r' = 10" "available_items r' = 3"
    "total_offered_items r' = 10 \<and> available_items r' = 3
          \<longrightarrow> availability_percentage r' = Some (to_float32 (to_double (3 / 10)))
              \<and> status r' = ''Warning''"
    unfolding l by blast
  then show ?thesis using f h by auto
qed

text \<open>
  Claim C7. On every row with at least one offered size, \<^verbatim>\<open>Warning_Sanction\<close>
  uses the two thresholds of \<^verbatim>\<open>status\<close> on the same rounded quotient (below 0.30
  Sanction, from 0.30 and below 0.50 Warning), is set only when \<^verbatim>\<open>size_group\<close>
  is Extra Large, and is the empty text otherwise. It then repeats a \<^verbatim>\<open>status\<close>
  that is not OK. \<^verbatim>\<open>status\<close> itself does not depend on the size group, and the
  row keeps both columns.
\<close>

theorem warning_sanction_extra_large:
  "total_sizes r \<noteq> [] \<Longrightarrow>
   \<exists>r'. calculate_metrics_row ansi r = Inr r'
     \<and> size_group r' = size_group r
     \<and> Warning_Sanction r' =
         (if size_group r = ''Extra Large''
          then (if round_half_up 2 (of_nat (length (available_size r)) / of_nat (length (total_sizes r))) < 3 / 10
                then ''Sanction''
                else if round_half_up 2 (of_nat (length (available_size r)) / of_nat (length (total_sizes r))) < 1 / 2
                then ''Warning'' else [])
          else [])
     \<and> Warning_Sanction r' =
         (if size_group r = ''Extra Large'' \<and> status r' \<noteq> ''OK'' then status r' else [])
     \<and> map_sum id status (calculate_metrics_row ansi (r\<lparr>size_group := g\<rparr>)) = Inr (status r')"
proof -
  assume t: "total_sizes r \<noteq> []"
  then have t': "total_sizes (r\<lparr>size_group := g\<rparr>) \<noteq> []" by simp
  show ?thesis
    unfolding metrics_row_nonempty [OF t] metrics_row_nonempty [OF t'] by auto
qed

theorem warning_sanction_extra_large_witness:
  "\<exists>r'. calculate_metrics_row False
          (catalog_row None [] [] [''42C'', ''42D'', ''44C'', ''44D''] [''44D'']
             \<lparr>size_group := ''Extra Large''\<rparr>) = Inr r'
     \<and> Warning_Sanction r' = ''Sanction'' \<and> status r' = ''Sanction''
     \<and> map_sum id status
          (calculate_metrics_row False
             (catalog_row None [] [] [''42C'', ''42D'', ''44C'', ''44D''] [''44D'']
                \<lparr>size_group := ''Small''\<rparr>)) = Inr ''Sanction''"
proof -
  let ?r = "catalog_row None [] [] [''42C'', ''42D'', ''44C'', ''44D''] [''44D'']
              \<lparr>size_group := ''Extra Large''\<rparr>"
  have t: "total_sizes ?r \<noteq> []"
    by (simp add: catalog_row_def)
  have q: "round_half_up 2 (1 / 4) = 1 / 4"
    by code_simp
  have p: "round_half_up 2 (of_nat (length (available_size ?r)) / of_nat (length (total_sizes ?r))) = 1 / 4"
    by (simp add: catalog_row_def q)
  have g: "size_group ?r = ''Extra Large''" "?r\<lparr>size_group := ''Small''\<rparr>
      = catalog_row None [] [] [''42C'', ''42D'', ''44C'', ''44D''] [''44D'']
          \<lparr>size_group := ''Small''\<rparr>"
    by simp_all
  from warning_sanction_extra_large [OF t, of False "''Small''"]
  show ?thesis
    unfolding p g by (auto split: if_splits)
qed

text \<open>
  Claim C8, as amended. When \<^verbatim>\<open>total_offered_items\<close> is 0 and the session runs
  with ANSI mode off, the division raises nothing: it yields NULL, so
  \<^verbatim>\<open>availability_percentage\<close> is absent, no threshold comparison is true,
  \<^verbatim>\<open>status\<close> is OK and \<^verbatim>\<open>Warning_Sanction\<close> is empty. Only with ANSI mode on
  does the computation fail with a division-by-zero error.
\<close>

theorem division_by_zero_null:
  "total_sizes r = [] \<Longrightarrow>
   calculate_metrics_row False r =
     Inr (r\<lparr>total_offered_items := 0,
            available_items := int (length (available_size r)),
            availability_percentage := None,
            status := ''OK'',
            Warning_Sanction := []\<rparr>)
   \<and> calculate_metrics_row True r = Inl DivideByZero"
  by (cases "size_group r = ''Extra Large''")
     (simp_all add: calculate_metrics_row_def spark_divide_def lt3_def ge3_def Let_def)

theorem division_by_zero_null_witness:
  "map_sum id (\<lambda>r. (total_offered_items r, availability_percentage r, status r, Warning_Sanction r))
     (calculate_metrics_row False (catalog_row None [] [] [] [''32B'']))
     = Inr (0, None, ''OK'', [])
   \<and> calculate_metrics_row True (catalog_row None [] [] [] [''32B'']) = Inl DivideByZero"
proof -
  have t: "total_sizes (catalog_row None [] [] [] [''32B'']) = []"
    by (simp add: catalog_row_def)
  show ?thesis
    using division_by_zero_null [OF t] by simp
qed

text \<open>
  The claim as the specification words it fails with ANSI mode off: a frame with one
  row whose \<^verbatim>\<open>total_sizes\<close> is empty goes through the metrics stage and comes out
  with a NULL percentage and the status OK.
\<close>

theorem division_by_zero_counterexample:
  "map_sum id (map (\<lambda>r. (total_offered_items r, availability_percentage r, status r)))
     (calculate_initial_metrics False [catalog_row None [] [] [] []])
     = Inr [(0, None, ''OK'')]"
  by (simp add: calculate_initial_metrics_def calculate_metrics_row_def spark_divide_def
      lt3_def ge3_def catalog_row_def)


section \<open>Brand Canonicalizer: the lookup\<close>







section \<open>Category Classifier: the first rule that matches\<close>











section \<open>Schema Assembler: the surrogate keys\<close>

lemma with_row_number_length: "length (with_row_number put df) = length df"
  by (simp add: with_row_number_def row_number_def)

lemma with_row_number_nth:
  "i < length df \<Longrightarrow> with_row_number put df ! i = put (df ! i) (int i + 1)"
  by (simp add: with_row_number_def row_number_def)

text \<open>
  The rows that \<^verbatim>\<open>process_data\<close> hands to the projections are the rows kept by
  the exclusion filter, keyed.
\<close>

lemma process_data_keys:
  "process_data ansi df = Inr out \<Longrightarrow> \<exists>d. out = assign_surrogate_keys (exclusion_filter d)"
  by (auto simp: process_data_def split: sum.splits)

text \<open>
  Claim C10. On every row retained by the exclusion filter the three surrogate keys
  coincide, \<^verbatim>\<open>product_id = retailer_id = size_id\<close>: each is the row number over
  the same window, so the three foreign keys are one shared sequence, which counts
  the retained rows from 1.
\<close>

theorem surrogate_keys_coincide:
  "list_all (\<lambda>r. product_id r = retailer_id r \<and> retailer_id r = size_id r)
     (assign_surrogate_keys (exclusion_filter df))
   \<and> map product_id (assign_surrogate_keys (exclusion_filter df))
       = map int [1..<Suc (length (exclusion_filter df))]"
proof -
  let ?d = "exclusion_filter df"
  have len: "length (assign_surrogate_keys ?d) = length ?d"
    by (simp add: assign_surrogate_keys_def with_row_number_length)
  have nth: "assign_surrogate_keys ?d ! i
      = (?d ! i)\<lparr>product_id := int i + 1, retailer_id := int i + 1, size_id := int i + 1\<rparr>"
    if "i < length ?d" for i
    using that
    by (simp add: assign_surrogate_keys_def with_row_number_length with_row_number_nth)
  have "list_all (\<lambda>r. product_id r = retailer_id r \<and> retailer_id r = size_id r)
     (assign_surrogate_keys ?d)"
    unfolding list_all_length using nth len by simp
  moreover have "map product_id (assign_surrogate_keys ?d) = map int [1..<Suc (length ?d)]"
    by (rule nth_equalityI) (simp_all add: len nth del: upt_Suc)
  ultimately show ?thesis by simp
qed

theorem surrogate_keys_coincide_witness:
  "map (\<lambda>r. (size_col r, product_id r, retailer_id r, size_id r))
     (assign_surrogate_keys (exclusion_filter
        [catalog_row None [] [] [] []\<lparr>category := Some ''Bras'', size_col := ''s''\<rparr>,
         catalog_row None [] [] [] []\<lparr>category := Some ''Bras'', size_col := ''34C''\<rparr>,
         catalog_row None [] [] [] []\<lparr>category := Some ''Panties'', size_col := ''s''\<rparr>]))
     = [(''34C'', 1, 1, 1), (''s'', 2, 2, 2)]"
  using surrogate_keys_coincide
    [of "[catalog_row None [] [] [] []\<lparr>category := Some ''Bras'', size_col := ''s''\<rparr>,
         catalog_row None [] [] [] []\<lparr>category := Some ''Bras'', size_col := ''34C''\<rparr>,
         catalog_row None [] [] [] []\<lparr>category := Some ''Panties'', size_col := ''s''\<rparr>]"]
  by (simp add: assign_surrogate_keys_def with_row_number_def row_number_def
      exclusion_filter_def retained_def eq3_def not3_def isin_def exclude_sizes_def
      catalog_row_def)


end
